theory Spec2Isabelle
  imports Main "HOL-Library.Word"
begin

unbundle bit_operations_syntax

section \<open>Go values as seen through package reflect\<close>

text \<open>
  The decoder of \<^verbatim>\<open>bytes_to_data.go\<close> walks a destination with Go's \<^verbatim>\<open>reflect\<close>
  package. A \<^verbatim>\<open>reflect.Type\<close> is modelled by \<open>rtype\<close>, a \<^verbatim>\<open>reflect.Value\<close> by
  \<open>rvalue\<close> together with a flag telling whether the value can be set (is addressable).
  Integers are kept as machine words of their width and floats as their IEEE-754 bit
  patterns, so every conversion of the source is a \<open>ucast\<close> (truncate or zero-extend) or
  an \<open>scast\<close> (sign-extend).
\<close>

type_synonym byte = "8 word"

datatype kind =
    KInvalid | KBool | KInt | KInt8 | KInt16 | KInt32 | KInt64
  | KUint | KUint8 | KUint16 | KUint32 | KUint64 | KUintptr
  | KFloat32 | KFloat64 | KComplex64 | KComplex128
  | KArray | KChan | KFunc | KInterface | KMap | KPtr | KSlice | KString | KStruct
  | KUnsafePointer

text \<open>
  \<open>TOther k\<close> stands for the types of every kind the other constructors do not cover
  (bool, int, uint, uintptr, complex, chan, func, map, unsafe pointer). A struct tag is
  kept as the key/value pairs that \<^verbatim>\<open>Tag.Get\<close> looks up; \<open>Exported\<close> is what
  \<^verbatim>\<open>CanInterface\<close> answers for the field of a value reached from an exported path.
\<close>

datatype rtype =
    TInt8 | TInt16 | TInt32 | TInt64
  | TUint8 | TUint16 | TUint32 | TUint64
  | TFloat32 | TFloat64
  | TString
  | TStruct string "sfield list"
  | TArray nat rtype
  | TSlice rtype
  | TInterface
  | TPtr rtype
  | TOther kind
and sfield =
    StructField (Name: string) (Type: rtype) (Exported: bool) (Tag: "(string \<times> string) list")

fun Kind :: "rtype \<Rightarrow> kind" where
  "Kind TInt8 = KInt8"
| "Kind TInt16 = KInt16"
| "Kind TInt32 = KInt32"
| "Kind TInt64 = KInt64"
| "Kind TUint8 = KUint8"
| "Kind TUint16 = KUint16"
| "Kind TUint32 = KUint32"
| "Kind TUint64 = KUint64"
| "Kind TFloat32 = KFloat32"
| "Kind TFloat64 = KFloat64"
| "Kind TString = KString"
| "Kind (TStruct n fs) = KStruct"
| "Kind (TArray n t) = KArray"
| "Kind (TSlice t) = KSlice"
| "Kind TInterface = KInterface"
| "Kind (TPtr t) = KPtr"
| "Kind (TOther k) = k"

text \<open>
  \<open>VIface None\<close> is a nil interface, \<open>VIface (Some (T, v))\<close> an interface holding the
  value \<open>v\<close> of dynamic type \<open>T\<close>; \<open>VPtr None\<close> is a nil pointer and \<open>VPtr (Some v)\<close> a
  pointer to a variable holding \<open>v\<close>; \<open>VInvalid\<close> is the zero \<^verbatim>\<open>reflect.Value\<close>.
  A Go string is a sequence of bytes.
\<close>

datatype rvalue =
    VInt8 "8 word" | VInt16 "16 word" | VInt32 "32 word" | VInt64 "64 word"
  | VUint8 "8 word" | VUint16 "16 word" | VUint32 "32 word" | VUint64 "64 word"
  | VFloat32 "32 word" | VFloat64 "64 word"
  | VString "byte list"
  | VStruct "rvalue list"
  | VArray "rvalue list"
  | VSlice "rvalue list"
  | VIface "(rtype \<times> rvalue) option"
  | VPtr "rvalue option"
  | VInvalid
  | VOther

section \<open>Errors, panics and results\<close>

text \<open>
  The source builds its errors with \<^verbatim>\<open>errors.New\<close> and \<^verbatim>\<open>fmt.Errorf\<close>; each message is
  one constructor, carrying the values formatted into it. In the words of the
  specification: \<open>DataShouldBePointer\<close> is InvalidArgument, \<open>SpecifyStringsLength\<close> is
  MissingLengthTag, \<open>NoSuchMethod\<close> is CodecNotFound, \<open>TypeNotSupported\<close> is
  UnsupportedType, \<open>CodecError\<close> is an error value returned by a custom method, and the
  remaining ones are InvalidCodecSignature.
\<close>

datatype error =
    DataShouldBePointer
  | TwoFunctionNames string
  | NoSuchMethod string string string
  | ShouldReceiveBytes string string
  | ShouldReturnTwoValues string string
  | FirstReturnShouldBeInt string string
  | SecondReturnShouldBeError string string rtype
  | SpecifyStringsLength string
  | TypeNotSupported kind
  | CodecError string

datatype panic =
    IndexOutOfRange
  | SliceBoundsOutOfRange
  | NilPointerDereference
  | ReflectPanic
  | Panic123

text \<open>A call either returns its results or panics.\<close>

datatype 'a exec = Returns 'a | Panics panic

section \<open>Byte slices and byte order\<close>

text \<open>
  A Go slice has a length and a capacity: \<open>visible\<close> holds the elements below the
  length, \<open>spare\<close> those of the backing array between length and capacity. Indexing is
  checked against the length, the upper bound of a slice expression against the
  capacity. Go's \<^verbatim>\<open>int\<close> is modelled by \<open>int\<close>: no offset of the decoder is
  multiplied, and sums of offsets stay far below \<open>2 ^ 63\<close> for buffers that fit in memory.
\<close>

datatype bslice = BSlice (visible: "byte list") (spare: "byte list")

definition len :: "bslice \<Rightarrow> int" where
  "len b = int (length (visible b))"

definition cap :: "bslice \<Rightarrow> int" where
  "cap b = int (length (visible b) + length (spare b))"

definition backing :: "bslice \<Rightarrow> byte list" where
  "backing b = visible b @ spare b"

definition index :: "bslice \<Rightarrow> int \<Rightarrow> byte exec" where
  \<comment> \<open>\<^verbatim>\<open>b[i]\<close>\<close>
  "index b i = (if 0 \<le> i \<and> i < len b then Returns (visible b ! nat i) else Panics IndexOutOfRange)"

definition slice :: "bslice \<Rightarrow> int \<Rightarrow> int \<Rightarrow> bslice exec" where
  \<comment> \<open>\<^verbatim>\<open>b[lo:hi]\<close>\<close>
  "slice b lo hi =
     (if 0 \<le> lo \<and> lo \<le> hi \<and> hi \<le> cap b
      then Returns (BSlice (take (nat (hi - lo)) (drop (nat lo) (backing b))) (drop (nat hi) (backing b)))
      else Panics SliceBoundsOutOfRange)"

definition slice_to :: "bslice \<Rightarrow> int \<Rightarrow> bslice exec" where
  \<comment> \<open>\<^verbatim>\<open>b[:hi]\<close>\<close>
  "slice_to b hi = slice b 0 hi"

definition slice_from :: "bslice \<Rightarrow> int \<Rightarrow> bslice exec" where
  \<comment> \<open>\<^verbatim>\<open>b[lo:]\<close>\<close>
  "slice_from b lo = slice b lo (len b)"

text \<open>
  The two byte orders of package \<^verbatim>\<open>encoding/binary\<close>; the cases of \<^verbatim>\<open>int8\<close> and
  \<^verbatim>\<open>uint8\<close> do not consult the byte order.
\<close>

datatype ByteOrder = LittleEndian | BigEndian

text \<open>
  \<^verbatim>\<open>binary.ByteOrder\<close>'s readers, as package \<^verbatim>\<open>encoding/binary\<close> writes them: a bounds
  check on the last byte read, then the bytes shifted into place.
\<close>

definition Uint16 :: "ByteOrder \<Rightarrow> byte list \<Rightarrow> 16 word exec" where
  "Uint16 e b =
     (if length b < 2 then Panics IndexOutOfRange
      else Returns (case e of
          LittleEndian \<Rightarrow> ucast (b ! 0) OR push_bit 8 (ucast (b ! 1))
        | BigEndian \<Rightarrow> ucast (b ! 1) OR push_bit 8 (ucast (b ! 0))))"

definition Uint32 :: "ByteOrder \<Rightarrow> byte list \<Rightarrow> 32 word exec" where
  "Uint32 e b =
     (if length b < 4 then Panics IndexOutOfRange
      else Returns (case e of
          LittleEndian \<Rightarrow> ucast (b ! 0) OR push_bit 8 (ucast (b ! 1)) OR push_bit 16 (ucast (b ! 2))
                           OR push_bit 24 (ucast (b ! 3))
        | BigEndian \<Rightarrow> ucast (b ! 3) OR push_bit 8 (ucast (b ! 2)) OR push_bit 16 (ucast (b ! 1))
                           OR push_bit 24 (ucast (b ! 0))))"

definition Uint64 :: "ByteOrder \<Rightarrow> byte list \<Rightarrow> 64 word exec" where
  "Uint64 e b =
     (if length b < 8 then Panics IndexOutOfRange
      else Returns (case e of
          LittleEndian \<Rightarrow> ucast (b ! 0) OR push_bit 8 (ucast (b ! 1)) OR push_bit 16 (ucast (b ! 2))
                           OR push_bit 24 (ucast (b ! 3)) OR push_bit 32 (ucast (b ! 4))
                           OR push_bit 40 (ucast (b ! 5)) OR push_bit 48 (ucast (b ! 6))
                           OR push_bit 56 (ucast (b ! 7))
        | BigEndian \<Rightarrow> ucast (b ! 7) OR push_bit 8 (ucast (b ! 6)) OR push_bit 16 (ucast (b ! 5))
                           OR push_bit 24 (ucast (b ! 4)) OR push_bit 32 (ucast (b ! 3))
                           OR push_bit 40 (ucast (b ! 2)) OR push_bit 48 (ucast (b ! 1))
                           OR push_bit 56 (ucast (b ! 0))))"

section \<open>Setters of reflect.Value\<close>

text \<open>
  \<^verbatim>\<open>SetInt\<close>, \<^verbatim>\<open>SetUint\<close>, \<^verbatim>\<open>SetFloat\<close> and \<^verbatim>\<open>SetString\<close> panic on a value that cannot be set
  and on a value of another kind, and otherwise store their argument converted to the
  width of the destination. \<^verbatim>\<open>SetFloat\<close> takes a \<^verbatim>\<open>float64\<close>. For a \<^verbatim>\<open>float64\<close>
  destination the source passes \<^verbatim>\<open>math.Float64frombits(val)\<close>, which is stored as it is.
  For a \<^verbatim>\<open>float32\<close> destination it passes \<^verbatim>\<open>float64(math.Float32frombits(val))\<close>, and
  \<^verbatim>\<open>SetFloat\<close> stores \<^verbatim>\<open>float32(x)\<close>: the widening and the narrowing back give every
  number and infinity its own bits again, and turn a signalling NaN into the quiet NaN
  with the same sign and payload (the top bit of the fraction set). \<open>float32_via_float64\<close>
  is this conversion on bit patterns; \<open>SetFloatBits32\<close> and \<open>SetFloatBits64\<close> are the
  two compositions.
\<close>

definition isNaN32 :: "32 word \<Rightarrow> bool" where
  \<comment> \<open>exponent all ones, fraction not zero\<close>
  "isNaN32 x \<longleftrightarrow> x AND 0x7F800000 = 0x7F800000 \<and> x AND 0x007FFFFF \<noteq> 0"

definition float32_via_float64 :: "32 word \<Rightarrow> 32 word" where
  "float32_via_float64 x = (if isNaN32 x then x OR 0x00400000 else x)"

definition SetInt :: "bool \<Rightarrow> rvalue \<Rightarrow> 64 word \<Rightarrow> rvalue exec" where
  "SetInt canSet v x =
     (if \<not> canSet then Panics ReflectPanic
      else case v of
          VInt8 _ \<Rightarrow> Returns (VInt8 (ucast x))
        | VInt16 _ \<Rightarrow> Returns (VInt16 (ucast x))
        | VInt32 _ \<Rightarrow> Returns (VInt32 (ucast x))
        | VInt64 _ \<Rightarrow> Returns (VInt64 x)
        | _ \<Rightarrow> Panics ReflectPanic)"

definition SetUint :: "bool \<Rightarrow> rvalue \<Rightarrow> 64 word \<Rightarrow> rvalue exec" where
  "SetUint canSet v x =
     (if \<not> canSet then Panics ReflectPanic
      else case v of
          VUint8 _ \<Rightarrow> Returns (VUint8 (ucast x))
        | VUint16 _ \<Rightarrow> Returns (VUint16 (ucast x))
        | VUint32 _ \<Rightarrow> Returns (VUint32 (ucast x))
        | VUint64 _ \<Rightarrow> Returns (VUint64 x)
        | _ \<Rightarrow> Panics ReflectPanic)"

definition SetFloatBits32 :: "bool \<Rightarrow> rvalue \<Rightarrow> 32 word \<Rightarrow> rvalue exec" where
  "SetFloatBits32 canSet v x =
     (if \<not> canSet then Panics ReflectPanic
      else case v of
          VFloat32 _ \<Rightarrow> Returns (VFloat32 (float32_via_float64 x))
        | _ \<Rightarrow> Panics ReflectPanic)"

definition SetFloatBits64 :: "bool \<Rightarrow> rvalue \<Rightarrow> 64 word \<Rightarrow> rvalue exec" where
  "SetFloatBits64 canSet v x =
     (if \<not> canSet then Panics ReflectPanic
      else case v of
          VFloat64 _ \<Rightarrow> Returns (VFloat64 x)
        | _ \<Rightarrow> Panics ReflectPanic)"

definition SetString :: "bool \<Rightarrow> rvalue \<Rightarrow> byte list \<Rightarrow> rvalue exec" where
  "SetString canSet v s =
     (if \<not> canSet then Panics ReflectPanic
      else case v of
          VString _ \<Rightarrow> Returns (VString s)
        | _ \<Rightarrow> Panics ReflectPanic)"

section \<open>Struct tags and package strconv\<close>

definition Tag_Get :: "(string \<times> string) list \<Rightarrow> string \<Rightarrow> string" where
  \<comment> \<open>\<^verbatim>\<open>Tag.Get(key)\<close>: the value of the key, the empty string when the tag has no such key\<close>
  "Tag_Get tag key = (case map_of tag key of Some v \<Rightarrow> v | None \<Rightarrow> [])"

definition ParseBool :: "string \<Rightarrow> bool option" where
  \<comment> \<open>\<^verbatim>\<open>strconv.ParseBool\<close>; \<open>None\<close> is its syntax error\<close>
  "ParseBool s =
     (if s \<in> set [''1'', ''t'', ''T'', ''TRUE'', ''true'', ''True''] then Some True
      else if s \<in> set [''0'', ''f'', ''F'', ''FALSE'', ''false'', ''False''] then Some False
      else None)"

definition digit :: "char \<Rightarrow> int option" where
  "digit c = (if (48::nat) \<le> of_char c \<and> (of_char c :: nat) \<le> 57 then Some (int (of_char c) - 48) else None)"

fun digits :: "int \<Rightarrow> string \<Rightarrow> int option" where
  "digits acc [] = Some acc"
| "digits acc (c # cs) = (case digit c of None \<Rightarrow> None | Some d \<Rightarrow> digits (10 * acc + d) cs)"

definition ParseInt_10_32 :: "string \<Rightarrow> int option" where
  \<comment> \<open>\<^verbatim>\<open>strconv.ParseInt(s, 10, 32)\<close>: an optional sign and decimal digits, within the range
      of \<^verbatim>\<open>int32\<close>; \<open>None\<close> is a syntax or range error\<close>
  "ParseInt_10_32 s =
     (case s of
        [] \<Rightarrow> None
      | c # cs \<Rightarrow>
          (let neg = (c = CHR ''-'');
               ds = (if c = CHR ''+'' \<or> c = CHR ''-'' then cs else s)
           in if ds = [] then None
              else case digits 0 ds of
                  None \<Rightarrow> None
                | Some n \<Rightarrow>
                    if neg then (if n \<le> 2 ^ 31 then Some (- n) else None)
                    else (if n < 2 ^ 31 then Some n else None)))"

fun Split :: "string \<Rightarrow> string list" where
  \<comment> \<open>\<^verbatim>\<open>strings.Split(s, ",")\<close>\<close>
  "Split [] = [[]]"
| "Split (c # cs) =
     (if c = CHR '','' then [] # Split cs
      else case Split cs of p # ps \<Rightarrow> (c # p) # ps | [] \<Rightarrow> [[c]])"

section \<open>What the file takes from the rest of the package\<close>

text \<open>
  \<^verbatim>\<open>typeSize\<close>, \<^verbatim>\<open>bytesToStr\<close> and \<^verbatim>\<open>errorInterface\<close> are declared in another file of
  the package, and the methods named by \<^verbatim>\<open>bytes_fn\<close> tags belong to the caller's types.
  The decoder is modelled for every choice of them: \<open>typeSize\<close> is any function from
  types to sizes, \<open>bytesToStr\<close> any function from bytes to a string,
  \<open>implementsError t\<close> answers \<^verbatim>\<open>t.Implements(errorInterface)\<close>, and \<open>methods n m\<close> is the
  exported method \<open>m\<close> declared for the struct type named \<open>n\<close>, with either kind of
  receiver.

  A method is its declared receiver kind, its parameter and result types, and what a call
  does. A call gets the struct the receiver points to and the data and yields the new
  value of the field the tag stands on, with the method's two results (the \<^verbatim>\<open>int\<close> and the
  \<^verbatim>\<open>error\<close>); a method is taken to write no other field and not to write into the
  buffer. A method with a value receiver works on a copy, so the field keeps its value.
\<close>

record gomethod =
  receiverIsPtr :: bool
  params :: "rtype list"
  results :: "rtype list"
  call :: "rvalue \<Rightarrow> bslice \<Rightarrow> rvalue \<times> int \<times> error option"

record externals =
  typeSize :: "rtype \<Rightarrow> int"
  bytesToStr :: "byte list \<Rightarrow> byte list"
  implementsError :: "rtype \<Rightarrow> bool"
  methods :: "string \<Rightarrow> string \<Rightarrow> gomethod option"

definition TypeName :: "rtype \<Rightarrow> string" where
  \<comment> \<open>\<^verbatim>\<open>Type.Name()\<close>, which the source applies to the struct type and to the pointer type
      made from it: a defined struct type has its name, a pointer type has none\<close>
  "TypeName t = (case t of TStruct n fs \<Rightarrow> n | _ \<Rightarrow> [])"

text \<open>
  \<^verbatim>\<open>reflect.Method\<close> as \<^verbatim>\<open>ptrType.MethodByName\<close> returns it. The method set of a pointer
  type holds the methods of both receiver kinds, and the function type of each has the
  pointer type itself as its first parameter.
\<close>

record rmethod =
  mName :: string
  mIn :: "rtype list"
  mOut :: "rtype list"

definition MethodByName :: "externals \<Rightarrow> rtype \<Rightarrow> string \<Rightarrow> (rmethod \<times> gomethod) option" where
  "MethodByName ext ptrType methodName =
     (case ptrType of
        TPtr (TStruct n fs) \<Rightarrow>
          (case methods ext n methodName of
             None \<Rightarrow> None
           | Some m \<Rightarrow> Some (\<lparr>mName = methodName, mIn = ptrType # params m, mOut = results m\<rparr>, m))
      | _ \<Rightarrow> None)"

definition boundMethod :: "gomethod \<Rightarrow> rvalue \<Rightarrow> rvalue \<Rightarrow> bslice \<Rightarrow> rvalue \<times> int \<times> error option" where
  \<comment> \<open>\<^verbatim>\<open>ptrValue.MethodByName(methodName)\<close>, bound to the struct \<open>owner\<close> whose field holds \<open>v\<close>\<close>
  "boundMethod m owner v data =
     (case call m owner data of
        (v', n, e) \<Rightarrow> (if receiverIsPtr m then v' else v, n, e))"

section \<open>The decoder\<close>

definition decodeValueViaFunc ::
  "externals \<Rightarrow> string \<Rightarrow> rvalue \<Rightarrow> (bslice \<Rightarrow> rvalue \<times> int \<times> error option) \<Rightarrow> rmethod \<Rightarrow> bslice
     \<Rightarrow> rvalue \<times> (int \<times> error option) exec" where
  \<comment> \<open>The \<^verbatim>\<open>fmt.Println\<close> of the receiver type writes to standard output and is left out.\<close>
  "decodeValueViaFunc ext structName value method methodType data =
     (let methodName = mName methodType in
      if length (mIn methodType) \<noteq> 2 then
        (value, Returns (0, Some (ShouldReceiveBytes structName methodName)))
      else if Kind (mIn methodType ! 0) \<noteq> KPtr then
        (value, Panics Panic123)
      else if mIn methodType ! 1 \<noteq> TSlice TUint8 then
        (value, Returns (0, Some (ShouldReceiveBytes structName methodName)))
      else if length (mOut methodType) \<noteq> 2 then
        (value, Returns (0, Some (ShouldReturnTwoValues structName methodName)))
      else if Kind (mOut methodType ! 0) \<noteq> KInt then
        (value, Returns (0, Some (FirstReturnShouldBeInt structName methodName)))
      else if \<not> implementsError ext (mOut methodType ! 1) then
        (value, Returns (0, Some (SecondReturnShouldBeError structName methodName (mOut methodType ! 1))))
      else case method data of
          (value', result, err) \<Rightarrow>
            (case err of
               Some e \<Rightarrow> (value', Returns (0, Some e))
             | None \<Rightarrow> (value', Returns (result, None))))"

definition needIgnore :: "sfield \<Rightarrow> bool" where
  \<comment> \<open>the test of lines 75 to 81: the tag \<^verbatim>\<open>bytes_ignore\<close> is not empty and parses to true\<close>
  "needIgnore fieldType =
     (let ignoreField = Tag_Get (Tag fieldType) ''bytes_ignore'' in
      ignoreField \<noteq> [] \<and> ParseBool ignoreField = Some True)"

definition cons_fst :: "'a \<Rightarrow> 'a list \<times> 'b \<Rightarrow> 'a list \<times> 'b" where
  "cons_fst v r = (v # fst r, snd r)"

text \<open>
  \<open>updateValueByTypeFromBytes ext canSet value Type bytes endian\<close> returns the value as
  the call leaves it (the source writes into the destination in place, and what it wrote
  before an error or a panic stays written) and how the call ended: \<open>Returns (offset, err)\<close>
  or a panic. \<open>decodeFields\<close> is the loop over the fields of a struct, from the field whose
  value heads the list, with the values of the fields before it in \<open>earlier\<close> and the
  struct type in \<open>structType\<close>;
  \<open>decodeItems\<close> is the loop over the elements of an array or slice.
\<close>

fun updateValueByTypeFromBytes ::
      "externals \<Rightarrow> bool \<Rightarrow> rvalue \<Rightarrow> rtype \<Rightarrow> bslice \<Rightarrow> ByteOrder \<Rightarrow> rvalue \<times> (int \<times> error option) exec"
  and decodeFields ::
      "externals \<Rightarrow> bool \<Rightarrow> rtype \<Rightarrow> rvalue list \<Rightarrow> sfield list \<Rightarrow> rvalue list \<Rightarrow> int \<Rightarrow> bslice \<Rightarrow> ByteOrder
         \<Rightarrow> rvalue list \<times> (int \<times> error option) exec"
  and decodeItems ::
      "externals \<Rightarrow> bool \<Rightarrow> rtype \<Rightarrow> rvalue list \<Rightarrow> int \<Rightarrow> bslice \<Rightarrow> ByteOrder
         \<Rightarrow> rvalue list \<times> (int \<times> error option) exec"
where
  "updateValueByTypeFromBytes ext canSet value TInt8 bytes endian =
     (case index bytes 0 of
        Panics p \<Rightarrow> (value, Panics p)
      | Returns b \<Rightarrow>
          (case SetInt canSet value (scast b) of
             Panics p \<Rightarrow> (value, Panics p)
           | Returns value' \<Rightarrow> (value', Returns (1, None))))"
| "updateValueByTypeFromBytes ext canSet value TInt16 bytes endian =
     (case slice_to bytes 2 of
        Panics p \<Rightarrow> (value, Panics p)
      | Returns b \<Rightarrow>
          (case Uint16 endian (visible b) of
             Panics p \<Rightarrow> (value, Panics p)
           | Returns val \<Rightarrow>
               (case SetInt canSet value (scast val) of
                  Panics p \<Rightarrow> (value, Panics p)
                | Returns value' \<Rightarrow> (value', Returns (2, None)))))"
| "updateValueByTypeFromBytes ext canSet value TInt32 bytes endian =
     (case slice_to bytes 4 of
        Panics p \<Rightarrow> (value, Panics p)
      | Returns b \<Rightarrow>
          (case Uint32 endian (visible b) of
             Panics p \<Rightarrow> (value, Panics p)
           | Returns val \<Rightarrow>
               (case SetInt canSet value (scast val) of
                  Panics p \<Rightarrow> (value, Panics p)
                | Returns value' \<Rightarrow> (value', Returns (4, None)))))"
| "updateValueByTypeFromBytes ext canSet value TInt64 bytes endian =
     (case slice_to bytes 8 of
        Panics p \<Rightarrow> (value, Panics p)
      | Returns b \<Rightarrow>
          (case Uint64 endian (visible b) of
             Panics p \<Rightarrow> (value, Panics p)
           | Returns val \<Rightarrow>
               (case SetInt canSet value val of
                  Panics p \<Rightarrow> (value, Panics p)
                | Returns value' \<Rightarrow> (value', Returns (8, None)))))"
| "updateValueByTypeFromBytes ext canSet value TUint8 bytes endian =
     (case index bytes 0 of
        Panics p \<Rightarrow> (value, Panics p)
      | Returns b \<Rightarrow>
          (case SetUint canSet value (ucast b) of
             Panics p \<Rightarrow> (value, Panics p)
           | Returns value' \<Rightarrow> (value', Returns (1, None))))"
| "updateValueByTypeFromBytes ext canSet value TUint16 bytes endian =
     (case slice_to bytes 2 of
        Panics p \<Rightarrow> (value, Panics p)
      | Returns b \<Rightarrow>
          (case Uint16 endian (visible b) of
             Panics p \<Rightarrow> (value, Panics p)
           | Returns val \<Rightarrow>
               (case SetUint canSet value (scast val) of
                  Panics p \<Rightarrow> (value, Panics p)
                | Returns value' \<Rightarrow> (value', Returns (2, None)))))"
| "updateValueByTypeFromBytes ext canSet value TUint32 bytes endian =
     (case slice_to bytes 4 of
        Panics p \<Rightarrow> (value, Panics p)
      | Returns b \<Rightarrow>
          (case Uint32 endian (visible b) of
             Panics p \<Rightarrow> (value, Panics p)
           | Returns val \<Rightarrow>
               (case SetUint canSet value (scast (ucast val :: 16 word)) of
                  Panics p \<Rightarrow> (value, Panics p)
                | Returns value' \<Rightarrow> (value', Returns (4, None)))))"
| "updateValueByTypeFromBytes ext canSet value TUint64 bytes endian =
     (case slice_to bytes 8 of
        Panics p \<Rightarrow> (value, Panics p)
      | Returns b \<Rightarrow>
          (case Uint64 endian (visible b) of
             Panics p \<Rightarrow> (value, Panics p)
           | Returns val \<Rightarrow>
               (case SetUint canSet value val of
                  Panics p \<Rightarrow> (value, Panics p)
                | Returns value' \<Rightarrow> (value', Returns (8, None)))))"
| "updateValueByTypeFromBytes ext canSet value TFloat32 bytes endian =
     (case slice_to bytes 4 of
        Panics p \<Rightarrow> (value, Panics p)
      | Returns b \<Rightarrow>
          (case Uint32 endian (visible b) of
             Panics p \<Rightarrow> (value, Panics p)
           | Returns val \<Rightarrow>
               (case SetFloatBits32 canSet value val of
                  Panics p \<Rightarrow> (value, Panics p)
                | Returns value' \<Rightarrow> (value', Returns (4, None)))))"
| "updateValueByTypeFromBytes ext canSet value TFloat64 bytes endian =
     (case slice_to bytes 8 of
        Panics p \<Rightarrow> (value, Panics p)
      | Returns b \<Rightarrow>
          (case Uint64 endian (visible b) of
             Panics p \<Rightarrow> (value, Panics p)
           | Returns val \<Rightarrow>
               (case SetFloatBits64 canSet value val of
                  Panics p \<Rightarrow> (value, Panics p)
                | Returns value' \<Rightarrow> (value', Returns (8, None)))))"
| "updateValueByTypeFromBytes ext canSet value (TStruct name flds) bytes endian =
     (case value of
        VStruct vs \<Rightarrow>
          (case decodeFields ext canSet (TStruct name flds) [] flds vs 0 bytes endian of
             (vs', r) \<Rightarrow> (VStruct vs', r))
      | _ \<Rightarrow>
          \<comment> \<open>\<^verbatim>\<open>value.Field(i)\<close> of a value that is no struct panics, when there is a field\<close>
          (if flds = [] then (value, Returns (0, None)) else (value, Panics ReflectPanic)))"
| "updateValueByTypeFromBytes ext canSet value (TArray n arrayItemsType) bytes endian =
     (case value of
        VArray vs \<Rightarrow>
          (case decodeItems ext canSet arrayItemsType vs 0 bytes endian of
             (vs', r) \<Rightarrow> (VArray vs', r))
      | VSlice vs \<Rightarrow>
          (case decodeItems ext True arrayItemsType vs 0 bytes endian of
             (vs', r) \<Rightarrow> (VSlice vs', r))
      | _ \<Rightarrow> (value, Panics ReflectPanic))"
| "updateValueByTypeFromBytes ext canSet value (TSlice arrayItemsType) bytes endian =
     (case value of
        VArray vs \<Rightarrow>
          (case decodeItems ext canSet arrayItemsType vs 0 bytes endian of
             (vs', r) \<Rightarrow> (VArray vs', r))
      | VSlice vs \<Rightarrow>
          (case decodeItems ext True arrayItemsType vs 0 bytes endian of
             (vs', r) \<Rightarrow> (VSlice vs', r))
      | _ \<Rightarrow> (value, Panics ReflectPanic))"
| "updateValueByTypeFromBytes ext canSet value TInterface bytes endian =
     (case value of
        VIface (Some (interfaceType, interfaceValue)) \<Rightarrow>
          (case slice_from bytes 0 of
             Panics p \<Rightarrow> (value, Panics p)
           | Returns rest \<Rightarrow>
               (case updateValueByTypeFromBytes ext False interfaceValue interfaceType rest endian of
                  (v', Returns (newOffset, None)) \<Rightarrow> (VIface (Some (interfaceType, v')), Returns (0 + newOffset, None))
                | (v', Returns (newOffset, Some err)) \<Rightarrow> (VIface (Some (interfaceType, v')), Returns (0, Some err))
                | (v', Panics p) \<Rightarrow> (VIface (Some (interfaceType, v')), Panics p)))
      | _ \<Rightarrow>
          \<comment> \<open>\<^verbatim>\<open>Elem\<close> of a nil interface is the zero Value, whose \<^verbatim>\<open>Type()\<close> panics\<close>
          (value, Panics ReflectPanic))"
| "updateValueByTypeFromBytes ext canSet value TString bytes endian =
     (value, Returns (0, Some (TypeNotSupported KString)))"
| "updateValueByTypeFromBytes ext canSet value (TPtr t) bytes endian =
     (value, Returns (0, Some (TypeNotSupported KPtr)))"
| "updateValueByTypeFromBytes ext canSet value (TOther k) bytes endian =
     (value, Returns (0, Some (TypeNotSupported k)))"
| "decodeFields ext canSet structType earlier [] vs offset bytes endian =
     (vs, Returns (offset, None))"
| "decodeFields ext canSet structType earlier (fieldType # flds) [] offset bytes endian =
     ([], Panics ReflectPanic)"
| "decodeFields ext canSet structType earlier (fieldType # flds) (fieldValue # vs) offset bytes endian =
     (if \<not> Exported fieldType then
        cons_fst fieldValue
          (decodeFields ext canSet structType (earlier @ [fieldValue]) flds vs
             (offset + typeSize ext (Type fieldType)) bytes endian)
      else if needIgnore fieldType then
        cons_fst fieldValue
          (decodeFields ext canSet structType (earlier @ [fieldValue]) flds vs offset bytes endian)
      else if Tag_Get (Tag fieldType) ''bytes_fn'' \<noteq> [] then
        (let funcs = Split (Tag_Get (Tag fieldType) ''bytes_fn'') in
         if length funcs < 2 then
           (fieldValue # vs, Returns (0, Some (TwoFunctionNames (Name fieldType))))
         else if \<not> canSet then
           \<comment> \<open>\<^verbatim>\<open>value.Addr()\<close> of a value that is not addressable\<close>
           (fieldValue # vs, Panics ReflectPanic)
         else
           (let methodName = funcs ! 1 in
            case MethodByName ext (TPtr structType) methodName of
              None \<Rightarrow>
                (fieldValue # vs,
                 Returns (0, Some (NoSuchMethod (TypeName (TPtr structType)) methodName (Name fieldType))))
            | Some (methodType, m) \<Rightarrow>
                (case slice_from bytes offset of
                   Panics p \<Rightarrow> (fieldValue # vs, Panics p)
                 | Returns data \<Rightarrow>
                     (case decodeValueViaFunc ext (TypeName structType) fieldValue
                             (boundMethod m (VStruct (earlier @ fieldValue # vs)) fieldValue)
                             methodType data of
                        (v', Returns (n, None)) \<Rightarrow>
                          cons_fst v'
                            (decodeFields ext canSet structType (earlier @ [v']) flds vs (offset + n) bytes endian)
                      | (v', Returns (n, Some err)) \<Rightarrow> (v' # vs, Returns (0, Some err))
                      | (v', Panics p) \<Rightarrow> (v' # vs, Panics p)))))
      else if Kind (Type fieldType) = KString then
        (case ParseInt_10_32 (Tag_Get (Tag fieldType) ''bytes_length'') of
           None \<Rightarrow> (fieldValue # vs, Returns (0, Some (SpecifyStringsLength (Name fieldType))))
         | Some strLen \<Rightarrow>
             (case slice bytes offset (offset + strLen) of
                Panics p \<Rightarrow> (fieldValue # vs, Panics p)
              | Returns raw \<Rightarrow>
                  (case SetString canSet fieldValue (bytesToStr ext (visible raw)) of
                     Panics p \<Rightarrow> (fieldValue # vs, Panics p)
                   | Returns v' \<Rightarrow>
                       cons_fst v'
                         (decodeFields ext canSet structType (earlier @ [v']) flds vs (offset + strLen) bytes endian))))
      else
        (case slice_from bytes offset of
           Panics p \<Rightarrow> (fieldValue # vs, Panics p)
         | Returns rest \<Rightarrow>
             (case updateValueByTypeFromBytes ext canSet fieldValue (Type fieldType) rest endian of
                (v', Returns (newOffset, None)) \<Rightarrow>
                  cons_fst v'
                    (decodeFields ext canSet structType (earlier @ [v']) flds vs (offset + newOffset) bytes endian)
              | (v', Returns (newOffset, Some err)) \<Rightarrow> (v' # vs, Returns (0, Some err))
              | (v', Panics p) \<Rightarrow> (v' # vs, Panics p))))"
| "decodeItems ext canSet arrayItemsType [] offset bytes endian =
     ([], Returns (offset, None))"
| "decodeItems ext canSet arrayItemsType (item # vs) offset bytes endian =
     (case slice_from bytes offset of
        Panics p \<Rightarrow> (item # vs, Panics p)
      | Returns rest \<Rightarrow>
          (case updateValueByTypeFromBytes ext canSet item arrayItemsType rest endian of
             (v', Returns (newOffset, None)) \<Rightarrow>
               cons_fst v' (decodeItems ext canSet arrayItemsType vs (offset + newOffset) bytes endian)
           | (v', Returns (newOffset, Some err)) \<Rightarrow> (v' # vs, Returns (0, Some err))
           | (v', Panics p) \<Rightarrow> (v' # vs, Panics p)))"

text \<open>
  The argument \<open>data\<close> is an \<^verbatim>\<open>interface{}\<close>: \<open>None\<close> is nil, \<open>Some (T, v)\<close> holds the
  value \<open>v\<close> of dynamic type \<open>T\<close>. \<^verbatim>\<open>reflect.TypeOf(nil)\<close> is the nil \<^verbatim>\<open>Type\<close>, and calling
  \<^verbatim>\<open>Kind\<close> on it is a nil dereference. \<^verbatim>\<open>Elem\<close> of a nil pointer is the zero Value. The
  result holds \<open>data\<close> with the variable pointed to as the call leaves it.
\<close>

definition ConvertBytesToData ::
  "externals \<Rightarrow> bslice \<Rightarrow> ByteOrder \<Rightarrow> (rtype \<times> rvalue) option
     \<Rightarrow> (rtype \<times> rvalue) option \<times> error option exec" where
  "ConvertBytesToData ext bytes endian data =
     (case data of
        None \<Rightarrow> (data, Panics NilPointerDereference)
      | Some (dataType, v) \<Rightarrow>
          if Kind dataType \<noteq> KPtr then (data, Returns (Some DataShouldBePointer))
          else
            (case (dataType, v) of
               (TPtr elemType, VPtr (Some dataValue)) \<Rightarrow>
                 (case updateValueByTypeFromBytes ext True dataValue elemType bytes endian of
                    (dataValue', Returns (offset, err)) \<Rightarrow>
                      (Some (dataType, VPtr (Some dataValue')), Returns err)
                  | (dataValue', Panics p) \<Rightarrow>
                      (Some (dataType, VPtr (Some dataValue')), Panics p))
             | (TPtr elemType, VPtr None) \<Rightarrow>
                 (case updateValueByTypeFromBytes ext False VInvalid elemType bytes endian of
                    (dataValue', Returns (offset, err)) \<Rightarrow> (data, Returns err)
                  | (dataValue', Panics p) \<Rightarrow> (data, Panics p))
             | _ \<Rightarrow> (data, Panics ReflectPanic)))"

section \<open>The helpers of the package, as the specification describes them\<close>

text \<open>
  Modelled from the spec: \<^verbatim>\<open>bytesToStr\<close> is called by the source and declared in a file
  that is not among the sources. The specification says of a text field: "read exactly
  that many raw bytes, trim any trailing NUL padding, store as text".
\<close>

definition bytesToStr_spec :: "byte list \<Rightarrow> byte list" where
  "bytesToStr_spec raw = rev (dropWhile (\<lambda>b. b = 0) (rev raw))"

text \<open>
  Modelled from the spec: \<^verbatim>\<open>typeSize\<close> is called by the source and declared in a file
  that is not among the sources. The specification calls its result the field's "static
  type size" and gives the widths of the scalar kinds: "1/2/4/8 bytes for
  int8/16/32/64 and uint8/16/32/64; 4/8 bytes for float32/64". It gives no size for the
  other types; they get 0 here, and nothing below depends on it.
\<close>

definition typeSize_spec :: "rtype \<Rightarrow> int" where
  "typeSize_spec t =
     (case t of
        TInt8 \<Rightarrow> 1 | TInt16 \<Rightarrow> 2 | TInt32 \<Rightarrow> 4 | TInt64 \<Rightarrow> 8
      | TUint8 \<Rightarrow> 1 | TUint16 \<Rightarrow> 2 | TUint32 \<Rightarrow> 4 | TUint64 \<Rightarrow> 8
      | TFloat32 \<Rightarrow> 4 | TFloat64 \<Rightarrow> 8
      | _ \<Rightarrow> 0)"

text \<open>
  A package without custom methods, for running the decoder on concrete inputs;
  \<^verbatim>\<open>errorInterface\<close> is the type \<^verbatim>\<open>error\<close>, which is the one interface type the
  examples below return, so \<open>TInterface\<close> stands for it there.
\<close>

definition ext0 :: externals where
  "ext0 = \<lparr>typeSize = typeSize_spec, bytesToStr = bytesToStr_spec,
           implementsError = (\<lambda>t. t = TInterface), methods = (\<lambda>n m. None)\<rparr>"

definition scalarWidth :: "rtype \<Rightarrow> int option" where
  \<comment> \<open>the offset the source returns in each of its ten scalar cases\<close>
  "scalarWidth t =
     (case t of
        TInt8 \<Rightarrow> Some 1 | TInt16 \<Rightarrow> Some 2 | TInt32 \<Rightarrow> Some 4 | TInt64 \<Rightarrow> Some 8
      | TUint8 \<Rightarrow> Some 1 | TUint16 \<Rightarrow> Some 2 | TUint32 \<Rightarrow> Some 4 | TUint64 \<Rightarrow> Some 8
      | TFloat32 \<Rightarrow> Some 4 | TFloat64 \<Rightarrow> Some 8
      | _ \<Rightarrow> None)"

definition withoutIgnoreTag :: "sfield \<Rightarrow> sfield" where
  \<comment> \<open>the same field declared without a \<^verbatim>\<open>bytes_ignore\<close> tag\<close>
  "withoutIgnoreTag f =
     StructField (Name f) (Type f) (Exported f) (filter (\<lambda>kv. fst kv \<noteq> ''bytes_ignore'') (Tag f))"

text \<open>
  The number of bytes the loop of the source adds to its offset for a field, where the
  declaration of the field fixes it: \<^verbatim>\<open>typeSize\<close> of the type for a field that is not
  accessible, nothing for an accessible field whose \<^verbatim>\<open>bytes_ignore\<close> tag is true, the
  declared length for a string, the width for a scalar, the sum over the fields for a
  struct, the length times the size of an element for an array. A field decoded by a
  custom method, a slice and an interface have no size known from the declaration.
\<close>

fun knownSize :: "externals \<Rightarrow> rtype \<Rightarrow> int option"
  and fieldSize :: "externals \<Rightarrow> sfield \<Rightarrow> int option"
  and fieldsSize :: "externals \<Rightarrow> sfield list \<Rightarrow> int option"
where
  "knownSize ext (TStruct n flds) = fieldsSize ext flds"
| "knownSize ext TInt8 = Some 1"
| "knownSize ext TInt16 = Some 2"
| "knownSize ext TInt32 = Some 4"
| "knownSize ext TInt64 = Some 8"
| "knownSize ext TUint8 = Some 1"
| "knownSize ext TUint16 = Some 2"
| "knownSize ext TUint32 = Some 4"
| "knownSize ext TUint64 = Some 8"
| "knownSize ext TFloat32 = Some 4"
| "knownSize ext TFloat64 = Some 8"
| "knownSize ext TString = None"
| "knownSize ext (TArray n t) =
     (case knownSize ext t of None \<Rightarrow> None | Some s \<Rightarrow> Some (int n * s))"
| "knownSize ext (TSlice t) = None"
| "knownSize ext TInterface = None"
| "knownSize ext (TPtr t) = None"
| "knownSize ext (TOther k) = None"
| "fieldSize ext (StructField name t exported tag) =
     (if \<not> exported then Some (typeSize ext t)
      else if needIgnore (StructField name t exported tag) then Some 0
      else if Tag_Get tag ''bytes_fn'' \<noteq> [] then None
      else if Kind t = KString then ParseInt_10_32 (Tag_Get tag ''bytes_length'')
      else knownSize ext t)"
| "fieldsSize ext [] = Some 0"
| "fieldsSize ext (f # flds) =
     (case fieldSize ext f of
        None \<Rightarrow> None
      | Some a \<Rightarrow> (case fieldsSize ext flds of None \<Rightarrow> None | Some b \<Rightarrow> Some (a + b)))"

text \<open>
  A value of an array type has as many elements as the type says (\<^verbatim>\<open>value.Len()\<close> is
  \<^verbatim>\<open>Type.Len()\<close>). \<open>shaped v T\<close> says so of \<open>v\<close> and of every array inside it that the
  decoder reaches through arrays and struct fields of the type \<open>T\<close>.
\<close>

fun shaped :: "rvalue \<Rightarrow> rtype \<Rightarrow> bool"
  and shapedItems :: "rvalue list \<Rightarrow> rtype \<Rightarrow> bool"
  and shapedFields :: "rvalue list \<Rightarrow> sfield list \<Rightarrow> bool"
where
  "shaped v T =
     (case T of
        TArray n t \<Rightarrow> (case v of VArray vs \<Rightarrow> length vs = n \<and> shapedItems vs t | _ \<Rightarrow> False)
      | TStruct name flds \<Rightarrow> (case v of VStruct vs \<Rightarrow> shapedFields vs flds | _ \<Rightarrow> True)
      | _ \<Rightarrow> True)"
| "shapedItems [] t = True"
| "shapedItems (v # vs) t = (shaped v t \<and> shapedItems vs t)"
| "shapedFields [] flds = True"
| "shapedFields (v # vs) [] = True"
| "shapedFields (v # vs) (f # flds) = (shaped v (Type f) \<and> shapedFields vs flds)"

text \<open>
  A package whose struct type \<open>T\<close> declares the method
  \<^verbatim>\<open>func (t T) Dec(data []byte) (int, error)\<close>, with a value receiver, which reports seven
  bytes consumed and no error.
\<close>

definition valueReceiverDec :: gomethod where
  "valueReceiverDec =
     \<lparr>receiverIsPtr = False, params = [TSlice TUint8], results = [TOther KInt, TInterface],
      call = (\<lambda>owner data. (VInt8 42, 7, None))\<rparr>"

definition extT :: externals where
  "extT = \<lparr>typeSize = typeSize_spec, bytesToStr = bytesToStr_spec,
           implementsError = (\<lambda>t. t = TInterface),
           methods = (\<lambda>n m. if n = ''T'' \<and> m = ''Dec'' then Some valueReceiverDec else None)\<rparr>"




definition boundsPanic :: "'a \<times> 'b exec \<Rightarrow> bool" where
  "boundsPanic r \<longleftrightarrow> snd r = Panics IndexOutOfRange \<or> snd r = Panics SliceBoundsOutOfRange"


definition signatureOk :: "externals \<Rightarrow> rmethod \<Rightarrow> bool" where
  \<comment> \<open>what \<^verbatim>\<open>decodeValueViaFunc\<close> asks of the method type, the kind of the receiver apart\<close>
  "signatureOk ext mt \<longleftrightarrow>
     length (mIn mt) = 2 \<and> mIn mt ! 1 = TSlice TUint8 \<and> length (mOut mt) = 2
     \<and> Kind (mOut mt ! 0) = KInt \<and> implementsError ext (mOut mt ! 1)"

section \<open>Basic facts\<close>

lemmas slice_defs = index_def slice_def slice_to_def slice_from_def len_def cap_def backing_def
lemmas set_defs = SetInt_def SetUint_def SetFloatBits32_def SetFloatBits64_def SetString_def
lemmas read_defs = Uint16_def Uint32_def Uint64_def
lemmas tag_defs = needIgnore_def Tag_Get_def ParseBool_def ParseInt_10_32_def digit_def
lemmas ext0_defs = ext0_def typeSize_spec_def bytesToStr_spec_def

lemma ucast_scast_8_64: "(ucast (scast (w :: 8 word) :: 64 word) :: 8 word) = w"
  by (rule bit_word_eqI) (auto simp add: bit_simps)

lemma ucast_scast_16_64: "(ucast (scast (w :: 16 word) :: 64 word) :: 16 word) = w"
  by (rule bit_word_eqI) (auto simp add: bit_simps)

lemma ucast_scast_32_64: "(ucast (scast (w :: 32 word) :: 64 word) :: 32 word) = w"
  by (rule bit_word_eqI) (auto simp add: bit_simps)

lemma ucast_ucast_8_64: "(ucast (ucast (w :: 8 word) :: 64 word) :: 8 word) = w"
  by (rule bit_word_eqI) (auto simp add: bit_simps)

lemma ucast_scast_low_half:
  "(ucast (scast (ucast (w :: 32 word) :: 16 word) :: 64 word) :: 32 word) = scast (ucast w :: 16 word)"
  by (rule bit_word_eqI) (auto simp add: bit_simps)

lemma snd_cons_fst [simp]: "snd (cons_fst v r) = snd r"
  by (simp add: cons_fst_def)

lemma fst_cons_fst [simp]: "fst (cons_fst v r) = v # fst r"
  by (simp add: cons_fst_def)

lemma ParseBool_Nil [simp]: "ParseBool [] = None"
  by (simp add: ParseBool_def)

lemma map_of_filter_key:
  "map_of (filter (\<lambda>kv. fst kv \<noteq> k) tag) k' = (if k' = k then None else map_of tag k')"
  by (induction tag) auto

lemma Tag_Get_filter:
  "Tag_Get (filter (\<lambda>kv. fst kv \<noteq> k) tag) k' = (if k' = k then [] else Tag_Get tag k')"
  by (simp add: Tag_Get_def map_of_filter_key)

lemma fieldSize_eq:
  "fieldSize ext f =
     (if \<not> Exported f then Some (typeSize ext (Type f))
      else if needIgnore f then Some 0
      else if Tag_Get (Tag f) ''bytes_fn'' \<noteq> [] then None
      else if Kind (Type f) = KString then ParseInt_10_32 (Tag_Get (Tag f) ''bytes_length'')
      else knownSize ext (Type f))"
  by (cases f) simp

declare shaped.simps [simp del]

lemma shaped_TArray [simp]:
  "shaped v (TArray n t) = (case v of VArray vs \<Rightarrow> length vs = n \<and> shapedItems vs t | _ \<Rightarrow> False)"
  by (simp add: shaped.simps)

lemma shaped_TStruct [simp]:
  "shaped v (TStruct name flds) = (case v of VStruct vs \<Rightarrow> shapedFields vs flds | _ \<Rightarrow> True)"
  by (simp add: shaped.simps)

lemma slice_from_0: "slice_from b 0 = Returns b"
  by (cases b) (simp add: slice_defs)

section \<open>Cutting a buffer shorter\<close>







section \<open>Scalars\<close>

text \<open>
  The example of the specification: the bytes \<open>[0x01, 0x00]\<close> decode as an \<^verbatim>\<open>int16\<close> to 1
  in little-endian order and to 256 in big-endian order, two bytes consumed.
\<close>

lemma int16_example:
  "updateValueByTypeFromBytes ext True (VInt16 0) TInt16 (BSlice [1, 0] []) LittleEndian
     = (VInt16 1, Returns (2, None))"
  "updateValueByTypeFromBytes ext True (VInt16 0) TInt16 (BSlice [1, 0] []) BigEndian
     = (VInt16 256, Returns (2, None))"
  by (simp_all add: slice_defs set_defs read_defs)

text \<open>
  For the kinds other than \<^verbatim>\<open>uint16\<close> and \<^verbatim>\<open>uint32\<close>, a buffer of the exact width: the
  value stored has the bits that were read (the sign or zero extension to 64 bits is cut
  off by the store; a \<^verbatim>\<open>float32\<close> that is a signalling NaN is stored quiet), and the width
  is the offset returned.
\<close>

lemma other_scalars_decode:
  "updateValueByTypeFromBytes ext True (VInt8 x8) TInt8 (BSlice [b] sp) endian
     = (VInt8 b, Returns (1, None))"
  "updateValueByTypeFromBytes ext True (VUint8 y8) TUint8 (BSlice [b] sp) endian
     = (VUint8 b, Returns (1, None))"
  "length bs2 = 2 \<Longrightarrow> Uint16 endian bs2 = Returns val16 \<Longrightarrow>
     updateValueByTypeFromBytes ext True (VInt16 x16) TInt16 (BSlice bs2 sp) endian
       = (VInt16 val16, Returns (2, None))"
  "length bs4 = 4 \<Longrightarrow> Uint32 endian bs4 = Returns val32 \<Longrightarrow>
     updateValueByTypeFromBytes ext True (VInt32 x32) TInt32 (BSlice bs4 sp) endian
       = (VInt32 val32, Returns (4, None))"
  "length bs8 = 8 \<Longrightarrow> Uint64 endian bs8 = Returns val64 \<Longrightarrow>
     updateValueByTypeFromBytes ext True (VInt64 x64) TInt64 (BSlice bs8 sp) endian
       = (VInt64 val64, Returns (8, None))"
  "length bs8 = 8 \<Longrightarrow> Uint64 endian bs8 = Returns val64 \<Longrightarrow>
     updateValueByTypeFromBytes ext True (VUint64 y64) TUint64 (BSlice bs8 sp) endian
       = (VUint64 val64, Returns (8, None))"
  "length bs4 = 4 \<Longrightarrow> Uint32 endian bs4 = Returns val32 \<Longrightarrow>
     updateValueByTypeFromBytes ext True (VFloat32 f32) TFloat32 (BSlice bs4 sp) endian
       = (VFloat32 (float32_via_float64 val32), Returns (4, None))"
  "length bs8 = 8 \<Longrightarrow> Uint64 endian bs8 = Returns val64 \<Longrightarrow>
     updateValueByTypeFromBytes ext True (VFloat64 f64) TFloat64 (BSlice bs8 sp) endian
       = (VFloat64 val64, Returns (8, None))"
  by (simp_all add: slice_defs set_defs ucast_scast_8_64 ucast_scast_16_64 ucast_scast_32_64
      ucast_ucast_8_64)

text \<open>
  The case of \<^verbatim>\<open>uint16\<close> passes through \<^verbatim>\<open>int16\<close> like the case of \<^verbatim>\<open>uint32\<close>, but the
  sign extension is cut off again when the value is stored in 16 bits: the value read is
  the value stored.
\<close>

lemma uint16_decode:
  assumes "length bs = 2" and "Uint16 endian bs = Returns val"
  shows "updateValueByTypeFromBytes ext True (VUint16 x) TUint16 (BSlice bs sp) endian
           = (VUint16 val, Returns (2, None))"
  using assms by (simp add: slice_defs set_defs ucast_scast_16_64)

text \<open>
  The case of \<^verbatim>\<open>uint32\<close> converts the value read to \<^verbatim>\<open>int16\<close>: what is stored is the low
  half of the value, sign-extended to 32 bits.
\<close>

lemma uint32_decode:
  assumes "length bs = 4" and "Uint32 endian bs = Returns val"
  shows "updateValueByTypeFromBytes ext True (VUint32 x) TUint32 (BSlice bs sp) endian
           = (VUint32 (scast (ucast val :: 16 word)), Returns (4, None))"
  using assms by (simp add: slice_defs set_defs ucast_scast_low_half)

text \<open>
  C1. Decoding a buffer of the exact width writes the value the bytes stand for, for every
  scalar kind and both byte orders. The code does not do so for \<^verbatim>\<open>uint32\<close>: the four
  bytes \<open>[0x00, 0x00, 0x01, 0x00]\<close> are the little-endian \<^verbatim>\<open>uint32\<close> 65536, and the
  decoder stores 0 (and reports four bytes consumed).
\<close>

theorem uint32_decode_loses_high_half:
  "updateValueByTypeFromBytes ext True (VUint32 7) TUint32 (BSlice [0, 0, 1, 0] []) LittleEndian
     = (VUint32 0, Returns (4, None))
   \<and> Uint32 LittleEndian [0, 0, 1, 0] = Returns 65536"
  by (simp add: slice_defs set_defs read_defs)

section \<open>The entry point\<close>

lemma non_pointer_is_refused:
  "Kind T \<noteq> KPtr \<Longrightarrow>
     ConvertBytesToData ext bytes endian (Some (T, v)) = (Some (T, v), Returns (Some DataShouldBePointer))"
  by (simp add: ConvertBytesToData_def)

lemma pointer_is_decoded:
  "ConvertBytesToData ext bytes endian (Some (TPtr T, VPtr (Some v)))
     = (case updateValueByTypeFromBytes ext True v T bytes endian of
          (v', Returns (offset, err)) \<Rightarrow> (Some (TPtr T, VPtr (Some v')), Returns err)
        | (v', Panics p) \<Rightarrow> (Some (TPtr T, VPtr (Some v')), Panics p))"
  by (simp add: ConvertBytesToData_def)

text \<open>
  C3. Every destination that is not a pointer is refused with the error "Data should be
  pointer". The code does so for every value that has a type (\<open>non_pointer_is_refused\<close>),
  but not for the nil interface, where it panics before the test: \<^verbatim>\<open>reflect.TypeOf(nil)\<close>
  is nil and the call of \<^verbatim>\<open>Kind\<close> on it dereferences nil.
\<close>

theorem nil_destination_panics:
  "ConvertBytesToData ext bytes endian None = (None, Panics NilPointerDereference)"
  by (simp add: ConvertBytesToData_def)

section \<open>The fields of a struct\<close>

text \<open>
  C4 as stated: every field carrying the \<^verbatim>\<open>bytes_ignore\<close> tag set to true consumes no
  bytes. A field that is not accessible is taken by the branch before the test of the tag:
  in the record \<open>{a: int8 (not accessible, tagged), B: int8}\<close> the tagged field advances
  the offset by its size, and \<open>B\<close> is read from the second byte.
\<close>

theorem unexported_ignored_field_consumes_bytes:
  "updateValueByTypeFromBytes ext0 True (VStruct [VInt8 0, VInt8 0])
     (TStruct ''R'' [StructField ''a'' TInt8 False [(''bytes_ignore'', ''true'')], StructField ''B'' TInt8 True []])
     (BSlice [7, 5] []) LittleEndian
     = (VStruct [VInt8 0, VInt8 5], Returns (2, None))"
  by (simp add: tag_defs slice_defs set_defs cons_fst_def ext0_defs)

text \<open>
  C4, amended. For every field whose \<^verbatim>\<open>bytes_ignore\<close> tag parses to true, the field keeps its
  value. If the field is accessible the offset is not advanced and the remaining fields
  are decoded from the same offset; if it is not accessible the remaining fields are
  decoded from the offset advanced by \<^verbatim>\<open>typeSize\<close> of its type, as for any field that is not
  accessible.
\<close>

theorem ignore_tagged_field_is_skipped:
  assumes "ParseBool (Tag_Get (Tag fieldType) ''bytes_ignore'') = Some True"
  shows "decodeFields ext canSet structType earlier (fieldType # flds) (fieldValue # vs) offset bytes endian
           = cons_fst fieldValue
               (decodeFields ext canSet structType (earlier @ [fieldValue]) flds vs
                  (if Exported fieldType then offset else offset + typeSize ext (Type fieldType))
                  bytes endian)"
proof -
  from assms have "Tag_Get (Tag fieldType) ''bytes_ignore'' \<noteq> []"
    by auto
  with assms have "needIgnore fieldType"
    by (simp add: needIgnore_def)
  then show ?thesis
    by simp
qed

text \<open>
  The example of the specification, \<open>{A: int8 (ignored), B: int8}\<close> on the buffer
  \<open>[0x05]\<close>: \<open>B = 5\<close>, one byte consumed; and a tagged field that is not accessible.
\<close>

theorem ignore_tagged_field_is_skipped_witness:
  "ParseBool (Tag_Get (Tag (StructField ''A'' TInt8 True [(''bytes_ignore'', ''true'')])) ''bytes_ignore'') = Some True
   \<and> updateValueByTypeFromBytes ext0 True (VStruct [VInt8 0, VInt8 0])
        (TStruct ''R'' [StructField ''A'' TInt8 True [(''bytes_ignore'', ''true'')], StructField ''B'' TInt8 True []])
        (BSlice [5] []) LittleEndian
       = (VStruct [VInt8 0, VInt8 5], Returns (1, None))
   \<and> updateValueByTypeFromBytes ext0 True (VStruct [VInt16 9, VInt8 0])
        (TStruct ''R'' [StructField ''a'' TInt16 False [(''bytes_ignore'', ''true'')], StructField ''B'' TInt8 True []])
        (BSlice [1, 2, 3] []) LittleEndian
       = (VStruct [VInt16 9, VInt8 3], Returns (3, None))"
  using ignore_tagged_field_is_skipped [of "StructField ''A'' TInt8 True [(''bytes_ignore'', ''true'')]"
      ext0 True "TStruct ''R'' [StructField ''A'' TInt8 True [(''bytes_ignore'', ''true'')], StructField ''B'' TInt8 True []]"
      "[]" "[StructField ''B'' TInt8 True []]" "VInt8 0" "[VInt8 0]" 0 "BSlice [5] []" LittleEndian]
    ignore_tagged_field_is_skipped [of "StructField ''a'' TInt16 False [(''bytes_ignore'', ''true'')]"
      ext0 True "TStruct ''R'' [StructField ''a'' TInt16 False [(''bytes_ignore'', ''true'')], StructField ''B'' TInt8 True []]"
      "[]" "[StructField ''B'' TInt8 True []]" "VInt16 9" "[VInt8 0]" 0 "BSlice [1, 2, 3] []" LittleEndian]
  by (simp add: tag_defs slice_defs set_defs cons_fst_def ext0_defs)




text \<open>
  C9. For every field whose \<^verbatim>\<open>bytes_ignore\<close> tag does not parse to true (it does not parse
  as a boolean, or parses to false), the loop does exactly what it does for the same field
  declared without the tag: the tag raises no error and changes neither what the field
  receives nor the bytes consumed.
\<close>

theorem malformed_ignore_tag_is_disregarded:
  assumes "ParseBool (Tag_Get (Tag fieldType) ''bytes_ignore'') \<noteq> Some True"
  shows "decodeFields ext canSet structType earlier (fieldType # flds) (fieldValue # vs) offset bytes endian
           = decodeFields ext canSet structType earlier (withoutIgnoreTag fieldType # flds) (fieldValue # vs)
               offset bytes endian"
proof -
  have a: "\<not> needIgnore fieldType"
    using assms by (simp add: needIgnore_def)
  have b: "\<not> needIgnore (withoutIgnoreTag fieldType)"
    by (simp add: needIgnore_def withoutIgnoreTag_def Tag_Get_filter)
  have c: "Tag_Get (Tag (withoutIgnoreTag fieldType)) ''bytes_fn'' = Tag_Get (Tag fieldType) ''bytes_fn''"
    "Tag_Get (Tag (withoutIgnoreTag fieldType)) ''bytes_length'' = Tag_Get (Tag fieldType) ''bytes_length''"
    "Name (withoutIgnoreTag fieldType) = Name fieldType"
    "Type (withoutIgnoreTag fieldType) = Type fieldType"
    "Exported (withoutIgnoreTag fieldType) = Exported fieldType"
    by (simp_all add: withoutIgnoreTag_def Tag_Get_filter)
  show ?thesis
    by (simp only: decodeFields.simps a b c)
qed

theorem malformed_ignore_tag_is_disregarded_witness:
  "ParseBool (Tag_Get (Tag (StructField ''A'' TInt8 True [(''bytes_ignore'', ''maybe'')])) ''bytes_ignore'') \<noteq> Some True
   \<and> withoutIgnoreTag (StructField ''A'' TInt8 True [(''bytes_ignore'', ''maybe'')]) = StructField ''A'' TInt8 True []
   \<and> decodeFields ext0 True (TStruct ''R'' [StructField ''A'' TInt8 True [(''bytes_ignore'', ''maybe'')]]) []
        [StructField ''A'' TInt8 True [(''bytes_ignore'', ''maybe'')]] [VInt8 0] 0 (BSlice [5] []) LittleEndian
       = ([VInt8 5], Returns (1, None))"
  using malformed_ignore_tag_is_disregarded [of "StructField ''A'' TInt8 True [(''bytes_ignore'', ''maybe'')]"
      ext0 True "TStruct ''R'' [StructField ''A'' TInt8 True [(''bytes_ignore'', ''maybe'')]]" "[]" "[]" "VInt8 0" "[]"
      0 "BSlice [5] []" LittleEndian]
  by (simp add: tag_defs slice_defs set_defs cons_fst_def withoutIgnoreTag_def)

section \<open>Custom methods\<close>


text \<open>
  A method whose parameters or results are not \<^verbatim>\<open>([]byte) (int, error)\<close> is refused with an
  error that does not depend on what the method does: it is not called.
\<close>

lemma wrong_signature_is_refused:
  assumes "\<not> signatureOk ext mt" and "length (mIn mt) = 2 \<Longrightarrow> Kind (mIn mt ! 0) = KPtr"
  shows "\<exists>err. \<forall>m. decodeValueViaFunc ext sn v m mt data = (v, Returns (0, Some err))"
  using assms by (auto simp add: decodeValueViaFunc_def signatureOk_def Let_def)

text \<open>
  The test of the receiver in \<^verbatim>\<open>decodeValueViaFunc\<close> ends in \<^verbatim>\<open>panic(123)\<close>, not in an
  error; and no method type that \<^verbatim>\<open>ptrType.MethodByName\<close> returns fails it, since the
  first parameter of each is the pointer type.
\<close>

lemma receiver_test_panics:
  assumes "length (mIn mt) = 2" and "Kind (mIn mt ! 0) \<noteq> KPtr"
  shows "decodeValueViaFunc ext sn v m mt data = (v, Panics Panic123)"
  using assms by (simp add: decodeValueViaFunc_def Let_def)

lemma missing_method_is_reported:
  assumes "Exported f" and "\<not> needIgnore f"
    and "Split (Tag_Get (Tag f) ''bytes_fn'') = encName # decName # others"
    and "methods ext structName decName = None"
  shows "decodeFields ext True (TStruct structName allFlds) earlier (f # flds) (v # vs) offset bytes endian
           = (v # vs, Returns (0, Some (NoSuchMethod [] decName (Name f))))"
proof -
  from assms(3) have "Tag_Get (Tag f) ''bytes_fn'' \<noteq> []"
    by auto
  with assms show ?thesis
    by (simp add: MethodByName_def TypeName_def)
qed

text \<open>
  C7. A decode method with a value receiver is refused with an error before it is called.
  The code does not refuse it: for the struct \<open>T\<close> with a field tagged
  \<^verbatim>\<open>bytes_fn:"Enc,Dec"\<close> and the method \<^verbatim>\<open>func (t T) Dec([]byte) (int, error)\<close>, the method is
  found in the method set of \<^verbatim>\<open>*T\<close>, passes every test and is called; the decoder returns
  the seven bytes the method reports and no error.
\<close>

theorem value_receiver_method_is_called:
  "updateValueByTypeFromBytes extT True (VStruct [VInt8 0])
     (TStruct ''T'' [StructField ''F'' TInt8 True [(''bytes_fn'', ''Enc,Dec'')]])
     (BSlice [5] []) LittleEndian
     = (VStruct [VInt8 0], Returns (7, None))
   \<and> \<not> receiverIsPtr valueReceiverDec"
  by (simp add: tag_defs slice_defs cons_fst_def extT_def valueReceiverDec_def MethodByName_def
      decodeValueViaFunc_def boundMethod_def TypeName_def)

section \<open>Errors\<close>





section \<open>Bytes consumed\<close>

lemma known_size_all:
  "shaped value T \<Longrightarrow>
     snd (updateValueByTypeFromBytes ext canSet value T bytes endian) = Returns (n, None) \<Longrightarrow>
     knownSize ext T = Some s \<Longrightarrow> n = s"
  "shapedFields vs flds \<Longrightarrow>
     snd (decodeFields ext canSet structType earlier flds vs offset bytes endian) = Returns (n, None) \<Longrightarrow>
     fieldsSize ext flds = Some s \<Longrightarrow> n = offset + s"
  "shapedItems vs itemT \<Longrightarrow>
     snd (decodeItems ext canSet itemT vs offset bytes endian) = Returns (n, None) \<Longrightarrow>
     knownSize ext itemT = Some s \<Longrightarrow> n = offset + int (length vs) * s"
proof (induction ext canSet "value" T bytes endian and ext canSet structType earlier flds vs offset bytes endian
         and ext canSet itemT vs offset bytes endian
         arbitrary: n s and n s and n s
         rule: updateValueByTypeFromBytes_decodeFields_decodeItems.induct)
  case (11 ext canSet "value" name flds bytes endian)
  then show ?case
    by (cases "value") (auto split: prod.splits if_splits)
next
  case (12 ext canSet "value" k arrayItemsType bytes endian)
  from "12.prems"(1) obtain vs where v: "value = VArray vs" and k: "length vs = k"
    and shp: "shapedItems vs arrayItemsType"
    by (cases "value") auto
  from "12.prems"(3) obtain s' where s': "knownSize ext arrayItemsType = Some s'" and s: "s = int k * s'"
    by (auto split: option.splits)
  from "12.prems"(2) v have "snd (decodeItems ext canSet arrayItemsType vs 0 bytes endian) = Returns (n, None)"
    by (auto split: prod.splits)
  from "12.IH"(1) [OF v shp this s'] k s show ?case
    by simp
next
  case (20 ext canSet structType earlier fieldType flds fieldValue vs offset bytes endian)
  from "20.prems"(3) obtain a b where a: "fieldSize ext fieldType = Some a"
    and b: "fieldsSize ext flds = Some b" and s: "s = a + b"
    by (auto split: option.splits)
  from "20.prems"(1) have shv: "shaped fieldValue (Type fieldType)" and shp: "shapedFields vs flds"
    by simp_all
  note run = "20.prems"(2)
  consider (unexp) "\<not> Exported fieldType"
    | (ign) "Exported fieldType" "needIgnore fieldType"
    | (fn) "Exported fieldType" "\<not> needIgnore fieldType" "Tag_Get (Tag fieldType) ''bytes_fn'' \<noteq> []"
    | (str) "Exported fieldType" "\<not> needIgnore fieldType" "Tag_Get (Tag fieldType) ''bytes_fn'' = []"
        "Kind (Type fieldType) = KString"
    | (plain) "Exported fieldType" "\<not> needIgnore fieldType" "Tag_Get (Tag fieldType) ''bytes_fn'' = []"
        "Kind (Type fieldType) \<noteq> KString"
    by blast
  then show ?case
  proof cases
    case unexp
    with a have "a = typeSize ext (Type fieldType)"
      by (simp add: fieldSize_eq)
    moreover from run unexp
    have "snd (decodeFields ext canSet structType (earlier @ [fieldValue]) flds vs
                 (offset + typeSize ext (Type fieldType)) bytes endian) = Returns (n, None)"
      by simp
    from "20.IH"(1) [OF unexp shp this b] have "n = offset + typeSize ext (Type fieldType) + b" .
    ultimately show ?thesis
      using s by simp
  next
    case ign
    with a have "a = 0"
      by (simp add: fieldSize_eq)
    moreover from run ign
    have "snd (decodeFields ext canSet structType (earlier @ [fieldValue]) flds vs offset bytes endian)
            = Returns (n, None)"
      by simp
    from "20.IH"(2) [OF _ ign(2) shp this b] ign(1) have "n = offset + b"
      by simp
    ultimately show ?thesis
      using s by simp
  next
    case fn
    with a show ?thesis
      by (simp add: fieldSize_eq)
  next
    case str
    with a have len: "ParseInt_10_32 (Tag_Get (Tag fieldType) ''bytes_length'') = Some a"
      by (simp add: fieldSize_eq)
    from run str len obtain raw v' where
      raw: "slice bytes offset (offset + a) = Returns raw"
      and v': "SetString canSet fieldValue (bytesToStr ext (visible raw)) = Returns v'"
      and rest: "snd (decodeFields ext canSet structType (earlier @ [v']) flds vs (offset + a) bytes endian)
                   = Returns (n, None)"
      by (auto split: exec.splits)
    from "20.IH"(4) [OF _ str(2) _ str(4) len raw v' shp rest b] str(1,3) have "n = offset + a + b"
      by simp
    then show ?thesis
      using s by simp
  next
    case plain
    with a have ks: "knownSize ext (Type fieldType) = Some a"
      by (simp add: fieldSize_eq)
    from run plain obtain rest v' m where
      rest: "slice_from bytes offset = Returns rest"
      and dec: "updateValueByTypeFromBytes ext canSet fieldValue (Type fieldType) rest endian
                  = (v', Returns (m, None))"
      and cont: "snd (decodeFields ext canSet structType (earlier @ [v']) flds vs (offset + m) bytes endian)
                   = Returns (n, None)"
      by (auto split: exec.splits prod.splits option.splits)
    from dec have "snd (updateValueByTypeFromBytes ext canSet fieldValue (Type fieldType) rest endian)
                     = Returns (m, None)"
      by simp
    from "20.IH"(5) [OF _ plain(2) _ plain(4) rest shv this ks] plain(1,3) have m: "m = a"
      by simp
    from "20.IH"(6) [OF _ plain(2) _ plain(4) rest dec [symmetric] refl refl refl shp cont b] plain(1,3)
    have "n = offset + m + b"
      by simp
    with m show ?thesis
      using s by simp
  qed
next
  case (22 ext canSet arrayItemsType item vs offset bytes endian)
  from "22.prems"(1) have shv: "shaped item arrayItemsType" and shp: "shapedItems vs arrayItemsType"
    by simp_all
  from "22.prems"(2) obtain rest v' m where
    rest: "slice_from bytes offset = Returns rest"
    and dec: "updateValueByTypeFromBytes ext canSet item arrayItemsType rest endian = (v', Returns (m, None))"
    and cont: "snd (decodeItems ext canSet arrayItemsType vs (offset + m) bytes endian) = Returns (n, None)"
    by (auto split: exec.splits prod.splits option.splits)
  from dec have "snd (updateValueByTypeFromBytes ext canSet item arrayItemsType rest endian) = Returns (m, None)"
    by simp
  from "22.IH"(1) [OF rest shv this "22.prems"(3)] have m: "m = s" .
  from "22.IH"(2) [OF rest dec [symmetric] refl refl refl shp cont "22.prems"(3)]
  have "n = offset + m + int (length vs) * s" .
  with m show ?case
    by (simp add: algebra_simps)
qed (auto split: exec.splits)

text \<open>
  C8 as stated: a field ignored by its tag adds its static size to the bytes consumed. It
  adds nothing: the record \<open>{A: int8 (ignored), B: int8}\<close> decodes from a one-byte buffer
  with one byte consumed, where the sizes of its two fields add up to two.
\<close>

theorem ignored_field_adds_nothing:
  "updateValueByTypeFromBytes ext0 True (VStruct [VInt8 0, VInt8 0])
     (TStruct ''R'' [StructField ''A'' TInt8 True [(''bytes_ignore'', ''true'')], StructField ''B'' TInt8 True []])
     (BSlice [5] []) LittleEndian
     = (VStruct [VInt8 0, VInt8 5], Returns (1, None))
   \<and> scalarWidth TInt8 = Some 1 \<and> (1::int) + 1 \<noteq> 1"
  by (simp add: tag_defs slice_defs set_defs cons_fst_def scalarWidth_def)

text \<open>
  C8, amended. For every record whose fields have sizes known from their declaration
  (\<open>fieldsSize\<close>) and that decodes without error, the bytes consumed are the sum of what
  the fields add: \<^verbatim>\<open>typeSize\<close> of its type for a field that is not accessible, nothing for
  an accessible field ignored by its tag, the declared length for a string, the width for
  a scalar, the length times the size of an element for an array and the same sum for a
  nested record. The destination is a value of the record type (\<open>shaped\<close>: its arrays
  have the length of their types).
\<close>

theorem consumed_is_sum_of_field_sizes:
  assumes "updateValueByTypeFromBytes ext canSet value (TStruct name flds) bytes endian
             = (value', Returns (n, None))"
    and "fieldsSize ext flds = Some s"
    and "shaped value (TStruct name flds)"
  shows "n = s"
  using assms known_size_all(1) [of "value" "TStruct name flds" ext canSet bytes endian n s]
  by simp

theorem consumed_is_sum_of_field_sizes_witness:
  "updateValueByTypeFromBytes ext0 True
     (VStruct [VInt16 9, VInt8 0, VInt8 0, VString [], VArray [VInt16 0, VInt16 0]])
     (TStruct ''R'' [StructField ''a'' TInt16 False [],
                     StructField ''A'' TInt8 True [(''bytes_ignore'', ''true'')],
                     StructField ''B'' TInt8 True [],
                     StructField ''S'' TString True [(''bytes_length'', ''2'')],
                     StructField ''Q'' (TArray 2 TInt16) True []])
     (BSlice [1, 2, 3, 0x41, 0x42, 1, 0, 2, 0] []) LittleEndian
     = (VStruct [VInt16 9, VInt8 0, VInt8 3, VString [0x41, 0x42], VArray [VInt16 1, VInt16 2]],
        Returns (9, None))
   \<and> fieldsSize ext0 [StructField ''a'' TInt16 False [],
                     StructField ''A'' TInt8 True [(''bytes_ignore'', ''true'')],
                     StructField ''B'' TInt8 True [],
                     StructField ''S'' TString True [(''bytes_length'', ''2'')],
                     StructField ''Q'' (TArray 2 TInt16) True []] = Some (2 + 0 + 1 + 2 + 2 * 2)"
proof -
  let ?flds = "[StructField ''a'' TInt16 False [],
                     StructField ''A'' TInt8 True [(''bytes_ignore'', ''true'')],
                     StructField ''B'' TInt8 True [],
                     StructField ''S'' TString True [(''bytes_length'', ''2'')],
                     StructField ''Q'' (TArray 2 TInt16) True []]"
  let ?v = "VStruct [VInt16 9, VInt8 0, VInt8 0, VString [], VArray [VInt16 0, VInt16 0]]"
  have run: "updateValueByTypeFromBytes ext0 True ?v (TStruct ''R'' ?flds)
     (BSlice [1, 2, 3, 0x41, 0x42, 1, 0, 2, 0] []) LittleEndian
     = (VStruct [VInt16 9, VInt8 0, VInt8 3, VString [0x41, 0x42], VArray [VInt16 1, VInt16 2]],
        Returns (9, None))"
    by (simp add: tag_defs slice_defs set_defs read_defs cons_fst_def ext0_defs)
  have size: "fieldsSize ext0 ?flds = Some 9"
    by (simp add: tag_defs ext0_defs)
  have shape: "shaped ?v (TStruct ''R'' ?flds)"
    by (simp add: shaped.simps)
  from consumed_is_sum_of_field_sizes [OF run size shape] run size show ?thesis
    by simp
qed

text \<open>
  C5 as stated: after a field that is not accessible, every later field is decoded at the
  offset it would have had if the field had been decoded normally. For a text field this
  fails whatever \<^verbatim>\<open>typeSize\<close> is: decoded normally it consumes the length of its tag, 1 in
  one record and 2 in the other, and \<^verbatim>\<open>typeSize\<close> sees the type only, so the bytes
  consumed cannot agree in both records.
\<close>

theorem inaccessible_text_field_lands_elsewhere:
  "\<forall>ext. \<not> (snd (updateValueByTypeFromBytes ext True (VStruct [VString [], VInt8 0])
                    (TStruct ''R'' [StructField ''s'' TString False [(''bytes_length'', ''1'')],
                                    StructField ''B'' TInt8 True []])
                    (BSlice [0x41, 0x42, 3, 4] []) LittleEndian)
             = snd (updateValueByTypeFromBytes ext True (VStruct [VString [], VInt8 0])
                    (TStruct ''R'' [StructField ''S'' TString True [(''bytes_length'', ''1'')],
                                    StructField ''B'' TInt8 True []])
                    (BSlice [0x41, 0x42, 3, 4] []) LittleEndian)
           \<and> snd (updateValueByTypeFromBytes ext True (VStruct [VString [], VInt8 0])
                    (TStruct ''R'' [StructField ''s'' TString False [(''bytes_length'', ''2'')],
                                    StructField ''B'' TInt8 True []])
                    (BSlice [0x41, 0x42, 3, 4] []) LittleEndian)
             = snd (updateValueByTypeFromBytes ext True (VStruct [VString [], VInt8 0])
                    (TStruct ''R'' [StructField ''S'' TString True [(''bytes_length'', ''2'')],
                                    StructField ''B'' TInt8 True []])
                    (BSlice [0x41, 0x42, 3, 4] []) LittleEndian))"
  by (auto simp add: tag_defs slice_defs set_defs cons_fst_def split: if_splits exec.splits)

lemma knownSize_not_string: "knownSize ext T = Some s \<Longrightarrow> Kind T \<noteq> KString"
  by (cases T) auto

text \<open>
  C5, amended. For every field that is not accessible, whatever \<^verbatim>\<open>typeSize\<close> is, the
  field keeps its value and the remaining fields are decoded from the offset advanced by
  exactly \<^verbatim>\<open>typeSize\<close> of the type of the field. Where \<^verbatim>\<open>typeSize\<close> of the type is the size
  known from its declaration (a scalar, an array, a record of such), this is the offset
  from which the remaining fields are decoded after the same field has been decoded as an
  accessible plain field without error.
\<close>

theorem inaccessible_field_is_padding:
  assumes "\<not> Exported fieldType"
  shows "decodeFields ext canSet structType earlier (fieldType # flds) (fieldValue # vs) offset bytes endian
           = cons_fst fieldValue
               (decodeFields ext canSet structType (earlier @ [fieldValue]) flds vs
                  (offset + typeSize ext (Type fieldType)) bytes endian)
         \<and> (\<forall>plain rest v' n.
               Exported plain \<and> \<not> needIgnore plain \<and> Tag_Get (Tag plain) ''bytes_fn'' = []
               \<and> Type plain = Type fieldType
               \<and> knownSize ext (Type fieldType) = Some (typeSize ext (Type fieldType))
               \<and> shaped fieldValue (Type fieldType)
               \<and> slice_from bytes offset = Returns rest
               \<and> updateValueByTypeFromBytes ext canSet fieldValue (Type plain) rest endian
                     = (v', Returns (n, None))
               \<longrightarrow> decodeFields ext canSet structType earlier (plain # flds) (fieldValue # vs) offset bytes endian
                     = cons_fst v'
                         (decodeFields ext canSet structType (earlier @ [v']) flds vs
                            (offset + typeSize ext (Type fieldType)) bytes endian))"
proof (intro conjI allI impI)
  show "decodeFields ext canSet structType earlier (fieldType # flds) (fieldValue # vs) offset bytes endian
           = cons_fst fieldValue
               (decodeFields ext canSet structType (earlier @ [fieldValue]) flds vs
                  (offset + typeSize ext (Type fieldType)) bytes endian)"
    using assms by simp
next
  fix plain rest v' n
  assume a: "Exported plain \<and> \<not> needIgnore plain \<and> Tag_Get (Tag plain) ''bytes_fn'' = []
               \<and> Type plain = Type fieldType
               \<and> knownSize ext (Type fieldType) = Some (typeSize ext (Type fieldType))
               \<and> shaped fieldValue (Type fieldType)
               \<and> slice_from bytes offset = Returns rest
               \<and> updateValueByTypeFromBytes ext canSet fieldValue (Type plain) rest endian
                     = (v', Returns (n, None))"
  then have "updateValueByTypeFromBytes ext canSet fieldValue (Type fieldType) rest endian
               = (v', Returns (n, None))"
    by auto
  then have "snd (updateValueByTypeFromBytes ext canSet fieldValue (Type fieldType) rest endian)
               = Returns (n, None)"
    by simp
  with a have n: "n = typeSize ext (Type fieldType)"
    using known_size_all(1) [of fieldValue "Type fieldType" ext canSet rest endian n "typeSize ext (Type fieldType)"]
    by simp
  from a have "Kind (Type plain) \<noteq> KString"
    using knownSize_not_string [of ext "Type fieldType"] by simp
  with a n show "decodeFields ext canSet structType earlier (plain # flds) (fieldValue # vs) offset bytes endian
                     = cons_fst v'
                         (decodeFields ext canSet structType (earlier @ [v']) flds vs
                            (offset + typeSize ext (Type fieldType)) bytes endian)"
    by auto
qed

text \<open>
  The sizes the specification gives for the scalar kinds are the sizes known from the
  declaration.
\<close>

lemma typeSize_spec_known:
  "scalarWidth T = Some w \<Longrightarrow> knownSize ext T = Some w \<and> typeSize_spec T = w"
  by (cases T) (simp_all add: scalarWidth_def typeSize_spec_def)

text \<open>
  A record with an inaccessible \<^verbatim>\<open>int16\<close> before an \<^verbatim>\<open>int8\<close>: the \<^verbatim>\<open>int16\<close> keeps its
  value 9 and the \<^verbatim>\<open>int8\<close> is read from the third byte, as it is when the first field is
  accessible and decoded.
\<close>

theorem inaccessible_field_is_padding_witness:
  "\<not> Exported (StructField ''a'' TInt16 False [])
   \<and> knownSize ext0 TInt16 = Some (typeSize ext0 TInt16)
   \<and> updateValueByTypeFromBytes ext0 True (VStruct [VInt16 9, VInt8 0])
        (TStruct ''R'' [StructField ''a'' TInt16 False [], StructField ''B'' TInt8 True []])
        (BSlice [1, 2, 3] []) LittleEndian
       = (VStruct [VInt16 9, VInt8 3], Returns (3, None))
   \<and> updateValueByTypeFromBytes ext0 True (VStruct [VInt16 9, VInt8 0])
        (TStruct ''R'' [StructField ''A'' TInt16 True [], StructField ''B'' TInt8 True []])
        (BSlice [1, 2, 3] []) LittleEndian
       = (VStruct [VInt16 0x0201, VInt8 3], Returns (3, None))"
proof -
  let ?a = "StructField ''a'' TInt16 False []"
  let ?A = "StructField ''A'' TInt16 True []"
  let ?B = "StructField ''B'' TInt8 True []"
  note inst = inaccessible_field_is_padding [of ?a ext0 True "TStruct ''R'' [?a, ?B]" "[]" "[?B]" "VInt16 9"
      "[VInt8 0]" 0 "BSlice [1, 2, 3] []" LittleEndian]
  have hidden: "\<not> Exported ?a"
    by simp
  have dec: "updateValueByTypeFromBytes ext0 True (VInt16 9) TInt16 (BSlice [1, 2, 3] []) LittleEndian
               = (VInt16 0x0201, Returns (2, None))"
    by (simp add: slice_defs set_defs read_defs)
  have known: "knownSize ext0 TInt16 = Some (typeSize ext0 TInt16)"
    by (simp add: ext0_defs)
  from inst [OF hidden] have
    skip: "decodeFields ext0 True (TStruct ''R'' [?a, ?B]) [] [?a, ?B] [VInt16 9, VInt8 0] 0 (BSlice [1, 2, 3] []) LittleEndian
            = cons_fst (VInt16 9)
                (decodeFields ext0 True (TStruct ''R'' [?a, ?B]) [VInt16 9] [?B] [VInt8 0]
                   (0 + typeSize ext0 TInt16) (BSlice [1, 2, 3] []) LittleEndian)"
    and same: "decodeFields ext0 True (TStruct ''R'' [?a, ?B]) [] [?A, ?B] [VInt16 9, VInt8 0] 0 (BSlice [1, 2, 3] []) LittleEndian
            = cons_fst (VInt16 0x0201)
                (decodeFields ext0 True (TStruct ''R'' [?a, ?B]) [VInt16 0x0201] [?B] [VInt8 0]
                   (0 + typeSize ext0 TInt16) (BSlice [1, 2, 3] []) LittleEndian)"
    using dec known by (auto simp add: tag_defs slice_from_0 shaped.simps)
  show ?thesis
    using skip same
    by (simp add: tag_defs slice_defs set_defs read_defs cons_fst_def ext0_defs)
qed

section \<open>Short buffers\<close>

lemma boundsPanic_cons_fst [simp]: "boundsPanic (cons_fst v r) = boundsPanic r"
  by (simp add: boundsPanic_def)

lemma boundsPanic_simps [simp]:
  "boundsPanic (x, Panics IndexOutOfRange)" "boundsPanic (x, Panics SliceBoundsOutOfRange)"
  "\<not> boundsPanic (x, Returns y)"
  by (simp_all add: boundsPanic_def)









end
